theory Spec2Isabelle
  imports Main "HOL-Library.Sublist"
begin

section \<open>Data model\<close>

text \<open>
  The front-end's TypeScript interfaces, as records. String-literal union types
  (\<^verbatim>\<open>'admin' | 'base_commander' | 'logistics_officer'\<close>, the status unions) are
  datatypes; an optional field (\<^verbatim>\<open>base_id?: string\<close>) is an \<open>option\<close>; the current
  principal \<^verbatim>\<open>user: User | null\<close> is a \<open>user option\<close>. Display-only fields that no
  modelled function reads (names, timestamps, notes) are kept where a filter or a
  predicate touches the record and dropped otherwise.
\<close>

datatype role = Admin | Base_commander | Logistics_officer

record user =
  user_id :: string
  user_role :: role
  user_base_id :: "string option"
  is_active :: bool

datatype transfer_status = T_pending | T_approved | T_rejected

record transfer =
  t_id :: string
  t_asset_name :: string
  from_base_id :: string
  to_base_id :: string
  t_quantity :: int
  t_status :: transfer_status
  transfer_date :: string

datatype purchase_status = P_pending | P_approved | P_cancelled

record purchase =
  p_id :: string
  p_asset_id :: string
  p_base_id :: string
  p_quantity :: int
  supplier :: string
  purchase_date :: string
  p_status :: purchase_status

datatype assignment_status =
  Active | Returned | Lost | Damaged | Partially_returned | Expended

record assignment =
  a_id :: string
  a_asset_id :: string
  personnel_id :: string
  a_base_id :: string
  assignment_date :: string
  a_status :: assignment_status
  a_quantity :: int

record asset =
  asset_id :: string
  asset_name :: string
  asset_base_id :: string
  asset_status :: string
  asset_quantity :: int
  available_quantity :: int

record expenditure =
  e_id :: string
  e_asset_name :: string
  e_base_id :: string
  e_quantity :: int
  expenditure_date :: string
  e_reason :: string

text \<open>
  \<^verbatim>\<open>user?.role\<close> and \<^verbatim>\<open>user?.base_id\<close>: optional chaining yields \<^verbatim>\<open>undefined\<close>
  (here \<open>None\<close>) when there is no principal, and \<^verbatim>\<open>user?.base_id\<close> also when the
  principal has no base. A record's base reference is a string, so the strict
  equality \<^verbatim>\<open>record.base_id === user?.base_id\<close> is false against \<^verbatim>\<open>undefined\<close>.
\<close>

definition role_of :: "user option \<Rightarrow> role option" where
  "role_of usr = map_option user_role usr"

definition base_of :: "user option \<Rightarrow> string option" where
  "base_of usr = Option.bind usr user_base_id"

section \<open>Permission predicates of the Transfers and Purchases pages\<close>

text \<open>
  The three closures of \<^verbatim>\<open>Transfers.tsx\<close> (lines 290-316). They close over the
  component's \<^verbatim>\<open>user\<close>, which is the first argument here.
\<close>

definition canApprove_transfer :: "user option \<Rightarrow> transfer \<Rightarrow> bool" where
  "canApprove_transfer usr t = (t_status t = T_pending)"

definition canDelete_transfer :: "user option \<Rightarrow> transfer \<Rightarrow> bool" where
  "canDelete_transfer usr t =
     (if role_of usr = Some Admin then True
      else if role_of usr = Some Base_commander then
        (t_status t = T_pending \<or> t_status t = T_rejected) \<and>
        (Some (from_base_id t) = base_of usr \<or> Some (to_base_id t) = base_of usr)
      else False)"

definition canEdit_transfer :: "user option \<Rightarrow> transfer \<Rightarrow> bool" where
  "canEdit_transfer usr t =
     (if role_of usr = Some Admin then True
      else if role_of usr = Some Base_commander then
        t_status t = T_pending \<and>
        (Some (from_base_id t) = base_of usr \<or> Some (to_base_id t) = base_of usr)
      else False)"

text \<open>The same three closures of the Purchases page (lines 243-268 of its file).\<close>

definition canApprove_purchase :: "user option \<Rightarrow> purchase \<Rightarrow> bool" where
  "canApprove_purchase usr p = (p_status p = P_pending)"

definition canDelete_purchase :: "user option \<Rightarrow> purchase \<Rightarrow> bool" where
  "canDelete_purchase usr p =
     (if role_of usr = Some Admin then True
      else if role_of usr = Some Base_commander then
        (p_status p = P_pending \<or> p_status p = P_cancelled) \<and>
        Some (p_base_id p) = base_of usr
      else False)"

definition canEdit_purchase :: "user option \<Rightarrow> purchase \<Rightarrow> bool" where
  "canEdit_purchase usr p =
     (if role_of usr = Some Admin then True
      else if role_of usr = Some Base_commander then
        p_status p = P_pending \<and> Some (p_base_id p) = base_of usr
      else False)"

text \<open>
  The action cell of one table row, as the JSX renders it: the titles of the buttons
  shown, in order. On both pages the whole cell is absent for a logistics officer, the
  approve and reject buttons are guarded by \<^verbatim>\<open>user?.role === 'admin' && canApprove(..)\<close>,
  and edit and delete by \<^verbatim>\<open>canEdit\<close> and \<^verbatim>\<open>canDelete\<close>.
\<close>

datatype action = Approve | Reject | Edit | Delete | Expend

definition shown :: "bool \<Rightarrow> action \<Rightarrow> action list" where
  "shown c a = (if c then [a] else [])"

definition transfer_row_actions :: "user option \<Rightarrow> transfer \<Rightarrow> action list" where
  "transfer_row_actions usr t =
     (if role_of usr \<noteq> Some Logistics_officer then
        shown (role_of usr = Some Admin \<and> canApprove_transfer usr t) Approve @
        shown (role_of usr = Some Admin \<and> canApprove_transfer usr t) Reject @
        shown (canEdit_transfer usr t) Edit @
        shown (canDelete_transfer usr t) Delete
      else [])"

definition purchase_row_actions :: "user option \<Rightarrow> purchase \<Rightarrow> action list" where
  "purchase_row_actions usr p =
     (if role_of usr \<noteq> Some Logistics_officer then
        shown (role_of usr = Some Admin \<and> canApprove_purchase usr p) Approve @
        shown (role_of usr = Some Admin \<and> canApprove_purchase usr p) Reject @
        shown (canEdit_purchase usr p) Edit @
        shown (canDelete_purchase usr p) Delete
      else [])"

text \<open>Concrete principals and records used to run the definitions.\<close>

definition admin_user :: user where
  "admin_user = \<lparr>user_id = ''u1'', user_role = Admin, user_base_id = None, is_active = True\<rparr>"

definition commander_B1 :: user where
  "commander_B1 =
     \<lparr>user_id = ''u2'', user_role = Base_commander, user_base_id = Some ''B1'',
      is_active = True\<rparr>"

definition officer_B1 :: user where
  "officer_B1 =
     \<lparr>user_id = ''u3'', user_role = Logistics_officer, user_base_id = Some ''B1'',
      is_active = True\<rparr>"

definition transfer_B1_B2 :: "transfer_status \<Rightarrow> transfer" where
  "transfer_B1_B2 st =
     \<lparr>t_id = ''t1'', t_asset_name = ''Rifle'', from_base_id = ''B1'', to_base_id = ''B2'',
      t_quantity = 5, t_status = st, transfer_date = ''2024-01-10''\<rparr>"

definition purchase_at :: "string \<Rightarrow> string \<Rightarrow> purchase_status \<Rightarrow> purchase" where
  "purchase_at i b st =
     \<lparr>p_id = i, p_asset_id = ''a1'', p_base_id = b, p_quantity = 3, supplier = ''ACME'',
      purchase_date = ''2024-02-01'', p_status = st\<rparr>"

section \<open>Record list controllers: filters, pages, loading\<close>

subsection \<open>JavaScript string and array operations\<close>

text \<open>
  A string is truthy when it is not empty. \<^verbatim>\<open>a || b\<close> on an optional string yields
  \<open>b\<close> when \<open>a\<close> is \<^verbatim>\<open>undefined\<close> or empty. \<^verbatim>\<open>includes\<close> is the substring
  test and \<^verbatim>\<open><\<close> on strings the lexicographic order of the character codes.
  \<^verbatim>\<open>toLowerCase\<close> is the engine's case mapping over all of Unicode, whose tables are
  not part of the source: the functions that call it take it as the parameter \<open>lower\<close>.
\<close>

definition or_else :: "string option \<Rightarrow> string \<Rightarrow> string" where
  "or_else a b = (case a of None \<Rightarrow> b | Some m \<Rightarrow> if m = [] then b else m)"

fun includes_str :: "string \<Rightarrow> string \<Rightarrow> bool" where
  "includes_str [] needle = (needle = [])"
| "includes_str (c # cs) needle = (prefix needle (c # cs) \<or> includes_str cs needle)"

fun str_less :: "string \<Rightarrow> string \<Rightarrow> bool" where
  "str_less [] [] = False"
| "str_less [] (y # ys) = True"
| "str_less (x # xs) [] = False"
| "str_less (x # xs) (y # ys) =
     (if (of_char x :: nat) < of_char y then True
      else if (of_char y :: nat) < of_char x then False
      else str_less xs ys)"

text \<open>
  \<^verbatim>\<open>xs.slice(s, e)\<close> for non-negative integer bounds: the elements at positions
  \<open>s \<le> i < min e (length xs)\<close>, empty when \<open>e \<le> s\<close> or \<open>length xs \<le> s\<close>. The page
  index and the page size are React state initialised to 0 and 10 and set from the
  table's pagination control, so they are natural numbers here.
\<close>

definition slice :: "'a list \<Rightarrow> nat \<Rightarrow> nat \<Rightarrow> 'a list" where
  "slice xs s e = take (e - s) (drop s xs)"

definition paginate :: "'a list \<Rightarrow> nat \<Rightarrow> nat \<Rightarrow> 'a list" where
  "paginate xs page rowsPerPage =
     (let start = page * rowsPerPage in slice xs start (start + rowsPerPage))"

subsection \<open>Filter criteria and the filtered views\<close>

record asset_filters =
  af_name :: string
  af_base_id :: string
  af_status :: string

record purchase_filters =
  pf_base_id :: string
  pf_start_date :: string
  pf_end_date :: string
  pf_status :: string

record assignment_filters =
  gf_base_id :: string
  gf_status :: string
  gf_asset_id :: string
  gf_personnel_id :: string

record transfer_filters =
  tf_from_base_id :: string
  tf_to_base_id :: string
  tf_asset_name :: string
  tf_status :: string
  tf_start_date :: string
  tf_end_date :: string

record expenditure_filters =
  ef_base_id :: string
  ef_start_date :: string
  ef_end_date :: string

fun purchase_status_str :: "purchase_status \<Rightarrow> string" where
  "purchase_status_str P_pending = ''pending''"
| "purchase_status_str P_approved = ''approved''"
| "purchase_status_str P_cancelled = ''cancelled''"

fun assignment_status_str :: "assignment_status \<Rightarrow> string" where
  "assignment_status_str Active = ''active''"
| "assignment_status_str Returned = ''returned''"
| "assignment_status_str Lost = ''lost''"
| "assignment_status_str Damaged = ''damaged''"
| "assignment_status_str Partially_returned = ''partially_returned''"
| "assignment_status_str Expended = ''expended''"

text \<open>The callbacks given to \<^verbatim>\<open>Array.prototype.filter\<close>, one early return per criterion.\<close>

definition asset_passes :: "(string \<Rightarrow> string) \<Rightarrow> asset_filters \<Rightarrow> asset \<Rightarrow> bool" where
  "asset_passes lower f a =
     (if af_name f \<noteq> [] \<and>
         \<not> includes_str (lower (asset_name a)) (lower (af_name f)) then False
      else if af_base_id f \<noteq> [] \<and> asset_base_id a \<noteq> af_base_id f then False
      else if af_status f \<noteq> [] \<and> asset_status a \<noteq> af_status f then False
      else True)"

definition purchase_passes :: "purchase_filters \<Rightarrow> purchase \<Rightarrow> bool" where
  "purchase_passes f p =
     (if pf_base_id f \<noteq> [] \<and> p_base_id p \<noteq> pf_base_id f then False
      else if pf_start_date f \<noteq> [] \<and> str_less (purchase_date p) (pf_start_date f) then False
      else if pf_end_date f \<noteq> [] \<and> str_less (pf_end_date f) (purchase_date p) then False
      else if pf_status f \<noteq> [] \<and> purchase_status_str (p_status p) \<noteq> pf_status f then False
      else True)"

definition assignment_passes :: "assignment_filters \<Rightarrow> assignment \<Rightarrow> bool" where
  "assignment_passes f a =
     (if gf_base_id f \<noteq> [] \<and> a_base_id a \<noteq> gf_base_id f then False
      else if gf_status f \<noteq> [] \<and> assignment_status_str (a_status a) \<noteq> gf_status f then False
      else if gf_asset_id f \<noteq> [] \<and> a_asset_id a \<noteq> gf_asset_id f then False
      else if gf_personnel_id f \<noteq> [] \<and> personnel_id a \<noteq> gf_personnel_id f then False
      else True)"

definition filteredAssets ::
  "(string \<Rightarrow> string) \<Rightarrow> asset list \<Rightarrow> asset_filters \<Rightarrow> asset list" where
  "filteredAssets lower allAssets f = filter (asset_passes lower f) allAssets"

definition filteredPurchases :: "purchase list \<Rightarrow> purchase_filters \<Rightarrow> purchase list" where
  "filteredPurchases allPurchases f = filter (purchase_passes f) allPurchases"

definition filteredAssignments ::
  "assignment list \<Rightarrow> assignment_filters \<Rightarrow> assignment list" where
  "filteredAssignments allAssignments f = filter (assignment_passes f) allAssignments"

definition no_asset_filters :: asset_filters where
  "no_asset_filters = \<lparr>af_name = [], af_base_id = [], af_status = []\<rparr>"

definition no_purchase_filters :: purchase_filters where
  "no_purchase_filters =
     \<lparr>pf_base_id = [], pf_start_date = [], pf_end_date = [], pf_status = []\<rparr>"

definition no_assignment_filters :: assignment_filters where
  "no_assignment_filters =
     \<lparr>gf_base_id = [], gf_status = [], gf_asset_id = [], gf_personnel_id = []\<rparr>"

subsection \<open>Component state and handlers\<close>

text \<open>
  The \<^verbatim>\<open>useState\<close> cells of each page that the modelled handlers read or write (dialog
  and form cells are left out). A handler's batched setter calls are one state update.
\<close>

record assets_page =
  allAssets :: "asset list"
  as_loading :: bool
  as_error :: string
  as_page :: nat
  as_rowsPerPage :: nat
  as_filters :: asset_filters

record purchases_page =
  allPurchases :: "purchase list"
  pu_loading :: bool
  pu_error :: string
  pu_page :: nat
  pu_rowsPerPage :: nat
  pu_filters :: purchase_filters

record assignments_page =
  allAssignments :: "assignment list"
  ag_loading :: bool
  ag_error :: string
  ag_page :: nat
  ag_rowsPerPage :: nat
  ag_filters :: assignment_filters

record transfers_page =
  transfers :: "transfer list"
  tr_loading :: bool
  tr_error :: string
  tr_page :: nat
  tr_rowsPerPage :: nat
  tr_total :: nat
  tr_filters :: transfer_filters

record expenditures_page =
  expenditures :: "expenditure list"
  ex_loading :: bool
  ex_error :: string
  ex_page :: nat
  ex_rowsPerPage :: nat
  ex_total :: nat
  ex_filters :: expenditure_filters

definition paginatedAssets :: "(string \<Rightarrow> string) \<Rightarrow> assets_page \<Rightarrow> asset list" where
  "paginatedAssets lower s =
     paginate (filteredAssets lower (allAssets s) (as_filters s)) (as_page s)
       (as_rowsPerPage s)"

definition paginatedPurchases :: "purchases_page \<Rightarrow> purchase list" where
  "paginatedPurchases s =
     paginate (filteredPurchases (allPurchases s) (pu_filters s)) (pu_page s) (pu_rowsPerPage s)"

definition paginatedAssignments :: "assignments_page \<Rightarrow> assignment list" where
  "paginatedAssignments s =
     paginate (filteredAssignments (allAssignments s) (ag_filters s)) (ag_page s)
       (ag_rowsPerPage s)"

text \<open>
  \<^verbatim>\<open>handleFiltersChange\<close> of each page; the argument is the \<^verbatim>\<open>base_id\<close> of the object
  the filter bar passes. The Assets and Expenditures pages also call \<^verbatim>\<open>setPage(0)\<close>.
\<close>

definition handleFiltersChange_assets :: "string \<Rightarrow> assets_page \<Rightarrow> assets_page" where
  "handleFiltersChange_assets base_id s =
     s\<lparr>as_filters :=
         \<lparr>af_name = [], af_base_id = (if base_id \<noteq> [] then base_id else []), af_status = []\<rparr>,
       as_page := 0\<rparr>"

definition handleFiltersChange_purchases :: "string \<Rightarrow> purchases_page \<Rightarrow> purchases_page" where
  "handleFiltersChange_purchases base_id s =
     s\<lparr>pu_filters :=
         \<lparr>pf_base_id = base_id, pf_start_date = [], pf_end_date = [], pf_status = []\<rparr>\<rparr>"

definition handleClearFilters_purchases :: "purchases_page \<Rightarrow> purchases_page" where
  "handleClearFilters_purchases s =
     s\<lparr>pu_filters :=
         \<lparr>pf_base_id = [], pf_start_date = [], pf_end_date = [], pf_status = []\<rparr>,
       pu_page := 0\<rparr>"

definition handleFiltersChange_assignments ::
  "string \<Rightarrow> assignments_page \<Rightarrow> assignments_page" where
  "handleFiltersChange_assignments base_id s =
     s\<lparr>ag_filters :=
         \<lparr>gf_base_id = base_id, gf_status = [], gf_asset_id = [], gf_personnel_id = []\<rparr>\<rparr>"

definition handleFiltersChange_transfers :: "string \<Rightarrow> transfers_page \<Rightarrow> transfers_page" where
  "handleFiltersChange_transfers base_id s =
     s\<lparr>tr_filters := (tr_filters s)\<lparr>tf_from_base_id := base_id\<rparr>\<rparr>"

definition handleFiltersChange_expenditures ::
  "string \<Rightarrow> expenditures_page \<Rightarrow> expenditures_page" where
  "handleFiltersChange_expenditures base_id s =
     s\<lparr>ex_filters :=
         \<lparr>ef_base_id = (if base_id \<noteq> [] then base_id else []), ef_start_date = [],
          ef_end_date = []\<rparr>,
       ex_page := 0\<rparr>"

text \<open>
  The pagination control's two callbacks on the three pages that slice on the client:
  \<^verbatim>\<open>onPageChange={(_, newPage) => setPage(newPage)}\<close> and the rows-per-page callback,
  which also returns to the first page.
\<close>

definition handleChangePage_assets :: "nat \<Rightarrow> assets_page \<Rightarrow> assets_page" where
  "handleChangePage_assets newPage s = s\<lparr>as_page := newPage\<rparr>"

definition handleChangeRowsPerPage_assets :: "nat \<Rightarrow> assets_page \<Rightarrow> assets_page" where
  "handleChangeRowsPerPage_assets n s = s\<lparr>as_rowsPerPage := n, as_page := 0\<rparr>"

definition handleChangePage_purchases :: "nat \<Rightarrow> purchases_page \<Rightarrow> purchases_page" where
  "handleChangePage_purchases newPage s = s\<lparr>pu_page := newPage\<rparr>"

definition handleChangeRowsPerPage_purchases :: "nat \<Rightarrow> purchases_page \<Rightarrow> purchases_page" where
  "handleChangeRowsPerPage_purchases n s = s\<lparr>pu_rowsPerPage := n, pu_page := 0\<rparr>"

definition handleChangePage_assignments :: "nat \<Rightarrow> assignments_page \<Rightarrow> assignments_page" where
  "handleChangePage_assignments newPage s = s\<lparr>ag_page := newPage\<rparr>"

definition handleChangeRowsPerPage_assignments ::
  "nat \<Rightarrow> assignments_page \<Rightarrow> assignments_page" where
  "handleChangeRowsPerPage_assignments n s = s\<lparr>ag_rowsPerPage := n, ag_page := 0\<rparr>"

subsection \<open>Loading a collection\<close>

text \<open>
  The outcome of the awaited request: it resolves with the response's payload, or it
  rejects, and then \<^verbatim>\<open>err.response?.data?.error\<close> is the server's message when the
  error carries one. Each \<^verbatim>\<open>fetchAll..\<close> sets \<^verbatim>\<open>loading\<close> first and clears it in
  \<^verbatim>\<open>finally\<close>; the state returned is the one after \<^verbatim>\<open>finally\<close>.
\<close>

datatype 'a fetch_result = Resolved 'a | Rejected "string option"

definition fetchAllAssets :: "asset list fetch_result \<Rightarrow> assets_page \<Rightarrow> assets_page" where
  "fetchAllAssets r s =
     (case r of
        Resolved d \<Rightarrow> s\<lparr>allAssets := d, as_loading := False\<rparr>
      | Rejected e \<Rightarrow>
          s\<lparr>as_error := or_else e ''Failed to fetch assets'', as_loading := False\<rparr>)"

definition fetchAllPurchases ::
  "purchase list fetch_result \<Rightarrow> purchases_page \<Rightarrow> purchases_page" where
  "fetchAllPurchases r s =
     (case r of
        Resolved d \<Rightarrow> s\<lparr>allPurchases := d, pu_loading := False\<rparr>
      | Rejected e \<Rightarrow>
          s\<lparr>pu_error := or_else e ''Failed to fetch purchases'', pu_loading := False\<rparr>)"

definition fetchAllAssignments ::
  "assignment list fetch_result \<Rightarrow> assignments_page \<Rightarrow> assignments_page" where
  "fetchAllAssignments r s =
     (case r of
        Resolved d \<Rightarrow> s\<lparr>allAssignments := d, ag_loading := False\<rparr>
      | Rejected e \<Rightarrow>
          s\<lparr>ag_error := or_else e ''Failed to fetch assignments'', ag_loading := False\<rparr>)"

definition fetchTransfers ::
  "(transfer list \<times> nat) fetch_result \<Rightarrow> transfers_page \<Rightarrow> transfers_page" where
  "fetchTransfers r s =
     (case r of
        Resolved d \<Rightarrow> s\<lparr>transfers := fst d, tr_total := snd d, tr_loading := False\<rparr>
      | Rejected e \<Rightarrow>
          s\<lparr>tr_error := or_else e ''Failed to fetch transfers'', tr_loading := False\<rparr>)"

definition fetchExpenditures ::
  "(expenditure list \<times> nat) fetch_result \<Rightarrow> expenditures_page \<Rightarrow> expenditures_page" where
  "fetchExpenditures r s =
     (case r of
        Resolved d \<Rightarrow> s\<lparr>expenditures := fst d, ex_total := snd d, ex_loading := False\<rparr>
      | Rejected e \<Rightarrow>
          s\<lparr>ex_error := or_else e ''Failed to fetch expenditures'', ex_loading := False\<rparr>)"

text \<open>
  Example states: a Purchases page holding six purchases, five of base B1 and one of
  base B2, showing its second page of five rows; an Assets page with one asset; an
  Assignments page with three assignments in pages of five; an Expenditures page
  holding one expenditure of three.
\<close>

definition six_purchases :: "purchase list" where
  "six_purchases =
     [purchase_at ''p1'' ''B1'' P_pending, purchase_at ''p2'' ''B1'' P_approved,
      purchase_at ''p3'' ''B1'' P_pending, purchase_at ''p4'' ''B1'' P_cancelled,
      purchase_at ''p5'' ''B1'' P_pending, purchase_at ''p6'' ''B2'' P_pending]"

definition purchases_second_page :: purchases_page where
  "purchases_second_page =
     \<lparr>allPurchases = six_purchases, pu_loading = False, pu_error = [], pu_page = 1,
      pu_rowsPerPage = 5, pu_filters = no_purchase_filters\<rparr>"

definition rifle :: asset where
  "rifle =
     \<lparr>asset_id = ''a1'', asset_name = ''Rifle'', asset_base_id = ''B1'',
      asset_status = ''available'', asset_quantity = 10, available_quantity = 7\<rparr>"

definition assets_loaded :: assets_page where
  "assets_loaded =
     \<lparr>allAssets = [rifle], as_loading = False, as_error = [], as_page = 0,
      as_rowsPerPage = 10, as_filters = no_asset_filters\<rparr>"

definition assignment_of :: "string \<Rightarrow> assignment_status \<Rightarrow> assignment" where
  "assignment_of b st =
     \<lparr>a_id = ''g1'', a_asset_id = ''a1'', personnel_id = ''s1'', a_base_id = b,
      assignment_date = ''2024-03-01'', a_status = st, a_quantity = 2\<rparr>"

definition three_assignments :: "assignment list" where
  "three_assignments =
     [assignment_of ''B1'' Active, assignment_of ''B2'' Returned, assignment_of ''B1'' Expended]"

definition assignments_loaded :: assignments_page where
  "assignments_loaded =
     \<lparr>allAssignments = three_assignments, ag_loading = False, ag_error = [], ag_page = 0,
      ag_rowsPerPage = 5, ag_filters = no_assignment_filters\<rparr>"

definition ammo_spent :: expenditure where
  "ammo_spent =
     \<lparr>e_id = ''e1'', e_asset_name = ''Ammunition'', e_base_id = ''B1'', e_quantity = 40,
      expenditure_date = ''2024-03-05'', e_reason = ''Training''\<rparr>"

definition expenditures_loaded :: expenditures_page where
  "expenditures_loaded =
     \<lparr>expenditures = [ammo_spent], ex_loading = False, ex_error = [], ex_page = 0,
      ex_rowsPerPage = 10, ex_total = 3,
      ex_filters = \<lparr>ef_base_id = [], ef_start_date = [], ef_end_date = []\<rparr>\<rparr>"

section \<open>Assignments page: the action cell\<close>

text \<open>
  The three icon buttons of an assignment's row (lines 520-548 of the Assignments page).
  Edit and Delete are always rendered; Delete carries
  \<^verbatim>\<open>disabled={user?.role === 'logistics_officer'}\<close>; Expend is rendered under
  \<^verbatim>\<open>assignment.status !== 'expended'\<close>. None of them consults a permission predicate.
\<close>

record button =
  btn_action :: action
  btn_disabled :: bool

definition assignment_row_buttons :: "user option \<Rightarrow> assignment \<Rightarrow> button list" where
  "assignment_row_buttons usr a =
     [\<lparr>btn_action = Edit, btn_disabled = False\<rparr>,
      \<lparr>btn_action = Delete, btn_disabled = (role_of usr = Some Logistics_officer)\<rparr>] @
     (if a_status a \<noteq> Expended then [\<lparr>btn_action = Expend, btn_disabled = False\<rparr>] else [])"

section \<open>Session store and shared reference cache\<close>

text \<open>
  The state the \<^verbatim>\<open>AuthProvider\<close> works on: the browser's \<^verbatim>\<open>localStorage\<close>, the
  default headers of the HTTP client (\<^verbatim>\<open>axios.defaults.headers.common\<close>), and its two
  state cells \<^verbatim>\<open>user\<close> and \<^verbatim>\<open>loading\<close>. An operation that can throw returns the
  thrown error or unit beside the new state.
\<close>

record session =
  localStorage :: "string \<rightharpoonup> string"
  axios_headers :: "string \<rightharpoonup> string"
  auth_user :: "user option"
  auth_loading :: bool

text \<open>\<^verbatim>\<open>if (token)\<close> on the result of \<^verbatim>\<open>getItem\<close>: neither \<^verbatim>\<open>null\<close> nor empty.\<close>

definition truthy_item :: "string option \<Rightarrow> bool" where
  "truthy_item v = (case v of None \<Rightarrow> False | Some t \<Rightarrow> t \<noteq> [])"

text \<open>
  The provider as mounted: \<^verbatim>\<open>useState(null)\<close>, \<^verbatim>\<open>useState(true)\<close>, and the first
  effect, which installs the persisted token as the default Authorization header.
\<close>

definition mount :: "(string \<rightharpoonup> string) \<Rightarrow> (string \<rightharpoonup> string) \<Rightarrow> session" where
  "mount ls hs =
     \<lparr>localStorage = ls,
      axios_headers =
        (case ls ''token'' of
           None \<Rightarrow> hs
         | Some t \<Rightarrow> if t \<noteq> [] then hs(''Authorization'' \<mapsto> ''Bearer '' @ t) else hs),
      auth_user = None,
      auth_loading = True\<rparr>"

definition logout :: "session \<Rightarrow> session" where
  "logout s =
     s\<lparr>localStorage := (localStorage s)(''token'' := None, ''refreshToken'' := None),
       axios_headers := (axios_headers s)(''Authorization'' := None),
       auth_user := None\<rparr>"

datatype profile_result = Profile_ok user | Profile_failed

text \<open>
  \<^verbatim>\<open>checkAuth\<close>, the second mount effect (the spec's \<open>restoreSession\<close>). It reads the
  token when the provider mounts and, if there is one, awaits the profile request.
  \<open>checkAuth_settled\<close> is the code that runs when that request settles, on the session
  as it is by then: \<^verbatim>\<open>setUser\<close> on success, the \<^verbatim>\<open>catch\<close> block on failure (which
  removes both tokens and the header and does not touch \<^verbatim>\<open>user\<close>), then
  \<^verbatim>\<open>setLoading(false)\<close>. \<open>checkAuth\<close> is the whole function when nothing else happens
  between the read and the settling.
\<close>

definition checkAuth_settled :: "profile_result \<Rightarrow> session \<Rightarrow> session" where
  "checkAuth_settled r s =
     (case r of
        Profile_ok u \<Rightarrow> s\<lparr>auth_user := Some u, auth_loading := False\<rparr>
      | Profile_failed \<Rightarrow>
          s\<lparr>localStorage := (localStorage s)(''token'' := None, ''refreshToken'' := None),
            axios_headers := (axios_headers s)(''Authorization'' := None),
            auth_loading := False\<rparr>)"

definition checkAuth :: "profile_result \<Rightarrow> session \<Rightarrow> session" where
  "checkAuth r s =
     (if truthy_item (localStorage s ''token'') then checkAuth_settled r s
      else s\<lparr>auth_loading := False\<rparr>)"

datatype login_result = Login_ok user string string | Login_failed "string option"

text \<open>
  \<^verbatim>\<open>login\<close>, as it runs when its request settles (it reads no state before): the
  response carries the user, the token and the refresh token; a rejection carries the
  server's message when there is one, and is rethrown as an \<^verbatim>\<open>Error\<close> with that
  message or \<^verbatim>\<open>'Login failed'\<close>.
\<close>

definition login :: "login_result \<Rightarrow> session \<Rightarrow> (string + unit) \<times> session" where
  "login r s =
     (case r of
        Login_ok userData token refreshTok \<Rightarrow>
          (Inr (),
           s\<lparr>localStorage :=
               (localStorage s)(''token'' \<mapsto> token, ''refreshToken'' \<mapsto> refreshTok),
             axios_headers := (axios_headers s)(''Authorization'' \<mapsto> ''Bearer '' @ token),
             auth_user := Some userData\<rparr>)
      | Login_failed e \<Rightarrow> (Inl (or_else e ''Login failed''), s))"

datatype refresh_result = Refresh_ok string | Refresh_failed

datatype refresh_error = No_refresh_token | Refresh_request_failed

text \<open>
  \<^verbatim>\<open>refreshToken\<close>: without a persisted refresh token it throws before any request;
  every error is caught, \<^verbatim>\<open>logout()\<close> runs, and the error is rethrown.
\<close>

definition refreshToken :: "refresh_result \<Rightarrow> session \<Rightarrow> (refresh_error + unit) \<times> session" where
  "refreshToken r s =
     (if \<not> truthy_item (localStorage s ''refreshToken'') then (Inl No_refresh_token, logout s)
      else
        (case r of
           Refresh_ok token \<Rightarrow>
             (Inr (),
              s\<lparr>localStorage := (localStorage s)(''token'' \<mapsto> token),
                axios_headers := (axios_headers s)(''Authorization'' \<mapsto> ''Bearer '' @ token)\<rparr>)
         | Refresh_failed \<Rightarrow> (Inl Refresh_request_failed, logout s)))"

text \<open>The credential invariant: no persisted access token, no principal.\<close>

definition session_inv :: "session \<Rightarrow> bool" where
  "session_inv s = (if localStorage s ''token'' = None then auth_user s = None else True)"

text \<open>
  A run of the provider. The state is the session and whether the profile request of
  \<^verbatim>\<open>checkAuth\<close> is still pending. The login route is not behind the start-up
  \<^verbatim>\<open>loading\<close> flag, so the exported operations can run while that request is pending.
  A step that is not enabled (a profile response with no request pending) is \<open>None\<close>.
\<close>

datatype auth_event =
  Profile_settles profile_result
  | Login_settles login_result
  | Logout_called
  | Refresh_settles refresh_result

definition start :: "(string \<rightharpoonup> string) \<Rightarrow> (string \<rightharpoonup> string) \<Rightarrow> session \<times> bool" where
  "start ls hs =
     (if truthy_item (ls ''token'') then (mount ls hs, True)
      else ((mount ls hs)\<lparr>auth_loading := False\<rparr>, False))"

definition auth_step :: "auth_event \<Rightarrow> session \<times> bool \<Rightarrow> (session \<times> bool) option" where
  "auth_step e st =
     (case e of
        Profile_settles r \<Rightarrow>
          if snd st then Some (checkAuth_settled r (fst st), False) else None
      | Login_settles r \<Rightarrow> Some (snd (login r (fst st)), snd st)
      | Logout_called \<Rightarrow> Some (logout (fst st), snd st)
      | Refresh_settles r \<Rightarrow> Some (snd (refreshToken r (fst st)), snd st))"

primrec auth_run :: "auth_event list \<Rightarrow> session \<times> bool \<Rightarrow> (session \<times> bool) option" where
  "auth_run [] st = Some st"
| "auth_run (e # es) st = (case auth_step e st of None \<Rightarrow> None | Some st' \<Rightarrow> auth_run es st')"

text \<open>
  The \<^verbatim>\<open>DataProvider\<close>: three cached collections, \<^verbatim>\<open>loading\<close> and \<^verbatim>\<open>error\<close>. A
  failed fetch carries the HTTP status when the error has a response.
\<close>

record base =
  b_id :: string
  b_name :: string
  b_code :: string

record asset_type =
  at_id :: string
  at_name :: string

record data_cache =
  bases :: "base list"
  assetTypes :: "asset_type list"
  dc_assets :: "asset list"
  dc_loading :: bool
  dc_error :: "string option"

datatype 'a cache_fetch = Fetched 'a | Fetch_failed "nat option"

definition fetch_error_text :: "nat option \<Rightarrow> string \<Rightarrow> string" where
  "fetch_error_text st fallback =
     (if st = Some 401 then ''Authentication required. Please log in.'' else fallback)"

text \<open>
  \<^verbatim>\<open>fetchBases\<close>, \<^verbatim>\<open>fetchAssetTypes\<close> and \<^verbatim>\<open>fetchAssets\<close>, as they run when their
  request settles, on the cache as it is by then. They catch their own errors, check
  nothing about the principal, and cannot be cancelled.
\<close>

definition fetchBases :: "base list cache_fetch \<Rightarrow> data_cache \<Rightarrow> data_cache" where
  "fetchBases r c =
     (case r of
        Fetched d \<Rightarrow> c\<lparr>bases := d, dc_error := None\<rparr>
      | Fetch_failed st \<Rightarrow> c\<lparr>dc_error := Some (fetch_error_text st ''Failed to fetch bases'')\<rparr>)"

definition fetchAssetTypes :: "asset_type list cache_fetch \<Rightarrow> data_cache \<Rightarrow> data_cache" where
  "fetchAssetTypes r c =
     (case r of
        Fetched d \<Rightarrow> c\<lparr>assetTypes := d, dc_error := None\<rparr>
      | Fetch_failed st \<Rightarrow>
          c\<lparr>dc_error := Some (fetch_error_text st ''Failed to fetch asset types'')\<rparr>)"

definition fetchAssets :: "asset list cache_fetch \<Rightarrow> data_cache \<Rightarrow> data_cache" where
  "fetchAssets r c =
     (case r of
        Fetched d \<Rightarrow> c\<lparr>dc_assets := d, dc_error := None\<rparr>
      | Fetch_failed st \<Rightarrow> c\<lparr>dc_error := Some (fetch_error_text st ''Failed to fetch assets'')\<rparr>)"

datatype request = Get_bases | Get_asset_types | Get_assets

datatype response =
  Bases_settled "base list cache_fetch"
  | Asset_types_settled "asset_type list cache_fetch"
  | Assets_settled "asset list cache_fetch"

definition request_of :: "response \<Rightarrow> request" where
  "request_of resp =
     (case resp of
        Bases_settled r \<Rightarrow> Get_bases
      | Asset_types_settled r \<Rightarrow> Get_asset_types
      | Assets_settled r \<Rightarrow> Get_assets)"

definition apply_response :: "response \<Rightarrow> data_cache \<Rightarrow> data_cache" where
  "apply_response resp c =
     (case resp of
        Bases_settled r \<Rightarrow> fetchBases r c
      | Asset_types_settled r \<Rightarrow> fetchAssetTypes r c
      | Assets_settled r \<Rightarrow> fetchAssets r c)"

text \<open>
  The provider's state: the cache, and for each run of the effect that started requests
  and still awaits its \<^verbatim>\<open>Promise.all\<close>, the requests of that run not yet settled.
\<close>

record provider =
  cache :: data_cache
  in_flight :: "request list list"

text \<open>
  The effect \<^verbatim>\<open>initializeData\<close>, run whenever \<^verbatim>\<open>user\<close> or the session's \<^verbatim>\<open>loading\<close>
  changes, up to its first \<^verbatim>\<open>await\<close>. With a principal it sets \<^verbatim>\<open>loading\<close> and starts the
  three requests; without one it empties the three collections. The effect returns no
  cleanup function, so requests started by an earlier run stay in flight.
\<close>

definition initializeData :: "user option \<Rightarrow> bool \<Rightarrow> provider \<Rightarrow> provider" where
  "initializeData usr authLoading p =
     (if authLoading then p
      else
        (case usr of
           Some u \<Rightarrow>
             p\<lparr>cache := (cache p)\<lparr>dc_loading := True\<rparr>,
               in_flight := in_flight p @ [[Get_bases, Get_asset_types, Get_assets]]\<rparr>
         | None \<Rightarrow>
             p\<lparr>cache :=
                 (cache p)\<lparr>dc_loading := False, bases := [], assetTypes := [], dc_assets := []\<rparr>\<rparr>))"

text \<open>
  A request of run \<open>k\<close> settles: its setters run, in whatever order the responses
  arrive; when it was the last of its run, \<^verbatim>\<open>Promise.all\<close> resolves and \<^verbatim>\<open>finally\<close>
  clears \<^verbatim>\<open>loading\<close>. \<open>None\<close> when no such request is in flight.
\<close>

definition settle :: "nat \<Rightarrow> response \<Rightarrow> provider \<Rightarrow> provider option" where
  "settle k resp p =
     (if k < length (in_flight p) \<and> request_of resp \<in> set (in_flight p ! k) then
        (let rest = remove1 (request_of resp) (in_flight p ! k);
             c = apply_response resp (cache p)
         in if rest = [] then
              Some \<lparr>cache = c\<lparr>dc_loading := False\<rparr>,
                    in_flight = take k (in_flight p) @ drop (Suc k) (in_flight p)\<rparr>
            else Some \<lparr>cache = c, in_flight = (in_flight p)[k := rest]\<rparr>)
      else None)"

text \<open>Example session and cache: an admin logged in, no reference data loaded yet.\<close>

definition admin_session :: session where
  "admin_session =
     \<lparr>localStorage = [''token'' \<mapsto> ''tok1'', ''refreshToken'' \<mapsto> ''ref1''],
      axios_headers = [''Authorization'' \<mapsto> ''Bearer tok1''],
      auth_user = Some admin_user,
      auth_loading = False\<rparr>"

definition fort_bragg :: base where
  "fort_bragg = \<lparr>b_id = ''B1'', b_name = ''Fort Bragg'', b_code = ''FB''\<rparr>"

definition empty_provider :: provider where
  "empty_provider =
     \<lparr>cache =
        \<lparr>bases = [], assetTypes = [], dc_assets = [], dc_loading = False, dc_error = None\<rparr>,
      in_flight = []\<rparr>"

definition weapon_type :: asset_type where
  "weapon_type = \<lparr>at_id = ''w'', at_name = ''Weapon''\<rparr>"

text \<open>
  The provider after this sequence: the admin is logged in and the effect starts the
  three requests; the admin logs out before any of them settles and the effect runs
  again, now without a principal.
\<close>

definition provider_after_logout :: provider where
  "provider_after_logout =
     initializeData (auth_user (logout admin_session)) (auth_loading (logout admin_session))
       (initializeData (auth_user admin_session) (auth_loading admin_session) empty_provider)"

section \<open>Permission predicates: the truth table\<close>

text \<open>
  C1. For an authenticated principal \<open>u\<close>, \<open>canEdit\<close> is true for an admin; for a base
  commander it is true exactly when the record is pending and the principal's base is
  one of the record's base references (a transfer's source or destination base, a
  purchase's base); for the remaining role it is false.
\<close>

theorem canEdit_truth_table:
  "canEdit_transfer (Some u) t =
     (case user_role u of
        Admin \<Rightarrow> True
      | Base_commander \<Rightarrow>
          t_status t = T_pending \<and>
          (user_base_id u = Some (from_base_id t) \<or> user_base_id u = Some (to_base_id t))
      | Logistics_officer \<Rightarrow> False)
   \<and> canEdit_purchase (Some u) p =
     (case user_role u of
        Admin \<Rightarrow> True
      | Base_commander \<Rightarrow> p_status p = P_pending \<and> user_base_id u = Some (p_base_id p)
      | Logistics_officer \<Rightarrow> False)"
  by (cases "user_role u")
     (auto simp: canEdit_transfer_def canEdit_purchase_def role_of_def base_of_def)

theorem canEdit_truth_table_witness:
  "canEdit_transfer (Some admin_user) (transfer_B1_B2 T_approved)
   \<and> canEdit_transfer (Some commander_B1) (transfer_B1_B2 T_pending)
   \<and> \<not> canEdit_transfer (Some commander_B1) (transfer_B1_B2 T_approved)
   \<and> \<not> canEdit_transfer (Some officer_B1) (transfer_B1_B2 T_pending)
   \<and> canEdit_purchase (Some commander_B1) (purchase_at ''p1'' ''B1'' P_pending)
   \<and> \<not> canEdit_purchase (Some commander_B1) (purchase_at ''p1'' ''B2'' P_pending)"
  using canEdit_truth_table [of admin_user "transfer_B1_B2 T_approved" "purchase_at ''p1'' ''B1'' P_pending"]
    canEdit_truth_table [of commander_B1 "transfer_B1_B2 T_pending" "purchase_at ''p1'' ''B1'' P_pending"]
    canEdit_truth_table [of commander_B1 "transfer_B1_B2 T_approved" "purchase_at ''p1'' ''B2'' P_pending"]
    canEdit_truth_table [of officer_B1 "transfer_B1_B2 T_pending" "purchase_at ''p1'' ''B1'' P_pending"]
  by (simp add: admin_user_def commander_B1_def officer_B1_def transfer_B1_B2_def
      purchase_at_def)

text \<open>
  C2. For an authenticated principal \<open>u\<close>, \<open>canDelete\<close> is true for an admin; for a
  base commander it is true exactly when the record's status is open (a transfer pending
  or rejected, a purchase pending or cancelled) and the principal's base is one of the
  record's base references; for the remaining role it is false.
\<close>

theorem canDelete_truth_table:
  "canDelete_transfer (Some u) t =
     (case user_role u of
        Admin \<Rightarrow> True
      | Base_commander \<Rightarrow>
          (t_status t = T_pending \<or> t_status t = T_rejected) \<and>
          (user_base_id u = Some (from_base_id t) \<or> user_base_id u = Some (to_base_id t))
      | Logistics_officer \<Rightarrow> False)
   \<and> canDelete_purchase (Some u) p =
     (case user_role u of
        Admin \<Rightarrow> True
      | Base_commander \<Rightarrow>
          (p_status p = P_pending \<or> p_status p = P_cancelled) \<and>
          user_base_id u = Some (p_base_id p)
      | Logistics_officer \<Rightarrow> False)"
  by (cases "user_role u")
     (auto simp: canDelete_transfer_def canDelete_purchase_def role_of_def base_of_def)

theorem canDelete_truth_table_witness:
  "canDelete_transfer (Some admin_user) (transfer_B1_B2 T_approved)
   \<and> canDelete_transfer (Some commander_B1) (transfer_B1_B2 T_rejected)
   \<and> \<not> canDelete_transfer (Some commander_B1) (transfer_B1_B2 T_approved)
   \<and> \<not> canDelete_transfer (Some officer_B1) (transfer_B1_B2 T_pending)
   \<and> canDelete_purchase (Some commander_B1) (purchase_at ''p1'' ''B1'' P_cancelled)
   \<and> \<not> canDelete_purchase (Some commander_B1) (purchase_at ''p1'' ''B1'' P_approved)"
  using canDelete_truth_table [of admin_user "transfer_B1_B2 T_approved" "purchase_at ''p1'' ''B1'' P_cancelled"]
    canDelete_truth_table [of commander_B1 "transfer_B1_B2 T_rejected" "purchase_at ''p1'' ''B1'' P_cancelled"]
    canDelete_truth_table [of commander_B1 "transfer_B1_B2 T_approved" "purchase_at ''p1'' ''B1'' P_approved"]
    canDelete_truth_table [of officer_B1 "transfer_B1_B2 T_pending" "purchase_at ''p1'' ''B1'' P_cancelled"]
  by (simp add: admin_user_def commander_B1_def officer_B1_def transfer_B1_B2_def
      purchase_at_def)

text \<open>
  C3. For every principal (present or not) and every record, \<open>canApprove\<close> is true
  exactly when the record's status is pending: the predicate does not look at the role.
  The role gate is the caller's: the row offers the approve action exactly to an admin
  on a pending record.
\<close>

theorem canApprove_status_only:
  "canApprove_transfer usr t = (t_status t = T_pending)
   \<and> canApprove_purchase usr p = (p_status p = P_pending)
   \<and> (Approve \<in> set (transfer_row_actions usr t)) =
       (role_of usr = Some Admin \<and> t_status t = T_pending)
   \<and> (Approve \<in> set (purchase_row_actions usr p)) =
       (role_of usr = Some Admin \<and> p_status p = P_pending)"
  by (auto simp: canApprove_transfer_def canApprove_purchase_def transfer_row_actions_def
      purchase_row_actions_def shown_def)

theorem canApprove_status_only_witness:
  "canApprove_transfer (Some officer_B1) (transfer_B1_B2 T_pending)
   \<and> \<not> canApprove_transfer (Some admin_user) (transfer_B1_B2 T_rejected)
   \<and> canApprove_purchase None (purchase_at ''p1'' ''B1'' P_pending)
   \<and> Approve \<notin> set (transfer_row_actions (Some commander_B1) (transfer_B1_B2 T_pending))"
  using canApprove_status_only [of "Some officer_B1" "transfer_B1_B2 T_pending" "purchase_at ''p1'' ''B1'' P_pending"]
    canApprove_status_only [of "Some admin_user" "transfer_B1_B2 T_rejected" "purchase_at ''p1'' ''B1'' P_pending"]
    canApprove_status_only [of None "transfer_B1_B2 T_pending" "purchase_at ''p1'' ''B1'' P_pending"]
    canApprove_status_only [of "Some commander_B1" "transfer_B1_B2 T_pending" "purchase_at ''p1'' ''B1'' P_pending"]
  by (simp add: admin_user_def commander_B1_def officer_B1_def transfer_B1_B2_def
      purchase_at_def role_of_def)

section \<open>Filtering\<close>

lemma asset_passes_no_filters: "asset_passes lower no_asset_filters a"
  by (simp add: asset_passes_def no_asset_filters_def)

lemma purchase_passes_no_filters: "purchase_passes no_purchase_filters p"
  by (simp add: purchase_passes_def no_purchase_filters_def)

lemma assignment_passes_no_filters: "assignment_passes no_assignment_filters a"
  by (simp add: assignment_passes_def no_assignment_filters_def)

lemma filteredAssets_no_filters: "filteredAssets lower xs no_asset_filters = xs"
  by (simp add: filteredAssets_def asset_passes_no_filters)

lemma filteredPurchases_no_filters: "filteredPurchases ps no_purchase_filters = ps"
  by (simp add: filteredPurchases_def purchase_passes_no_filters)

lemma filteredAssignments_no_filters: "filteredAssignments gs no_assignment_filters = gs"
  by (simp add: filteredAssignments_def assignment_passes_no_filters)

text \<open>
  C5. With every criterion empty each client-side filter (assets, purchases,
  assignments) returns the full collection unchanged; for any criteria the filtered view
  is a subsequence of the full collection, so the retained elements keep their source
  order. The filtered view is a function of the collection and the criteria alone (for
  assets, whatever the case mapping \<open>lower\<close> is).
\<close>

theorem filter_empty_is_identity_and_order_preserving:
  "filteredAssets lower xs no_asset_filters = xs
   \<and> filteredPurchases ps no_purchase_filters = ps
   \<and> filteredAssignments gs no_assignment_filters = gs
   \<and> subseq (filteredAssets lower xs f) xs
   \<and> subseq (filteredPurchases ps pf) ps
   \<and> subseq (filteredAssignments gs gf) gs"
  by (simp add: filteredAssets_def filteredPurchases_def filteredAssignments_def
      asset_passes_no_filters purchase_passes_no_filters assignment_passes_no_filters)

theorem filter_empty_is_identity_and_order_preserving_witness:
  "filteredPurchases six_purchases no_purchase_filters = six_purchases
   \<and> filteredPurchases six_purchases
        \<lparr>pf_base_id = [], pf_start_date = [], pf_end_date = [], pf_status = ''cancelled''\<rparr>
      = [purchase_at ''p4'' ''B1'' P_cancelled]
   \<and> subseq [purchase_at ''p4'' ''B1'' P_cancelled] six_purchases
   \<and> (\<forall>lower. filteredAssets lower [rifle] no_asset_filters = [rifle])"
proof -
  let ?f = "\<lparr>pf_base_id = [], pf_start_date = [], pf_end_date = [], pf_status = ''cancelled''\<rparr>"
  have ev: "filteredPurchases six_purchases ?f = [purchase_at ''p4'' ''B1'' P_cancelled]"
    by (simp add: filteredPurchases_def six_purchases_def purchase_passes_def purchase_at_def)
  have "filteredAssets lower [rifle] no_asset_filters = [rifle]
      \<and> filteredPurchases six_purchases no_purchase_filters = six_purchases
      \<and> subseq (filteredPurchases six_purchases ?f) six_purchases" for lower
    using filter_empty_is_identity_and_order_preserving
      [of lower "[rifle]" six_purchases "[]" no_asset_filters ?f no_assignment_filters]
    by simp
  with ev show ?thesis
    by simp
qed

section \<open>Pagination\<close>

lemma paginate_take_drop: "paginate xs p r = take r (drop (p * r) xs)"
  by (simp add: paginate_def slice_def Let_def)

lemma concat_pages: "concat (map (\<lambda>p. paginate xs p r) [0..<n]) = take (n * r) xs"
proof (induction n)
  case 0
  show ?case by simp
next
  case (Suc n)
  have "take (Suc n * r) xs = take (n * r + r) xs"
    by (simp add: add.commute)
  also have "\<dots> = take (n * r) xs @ take r (drop (n * r) xs)"
    by (rule take_add)
  finally show ?case
    using Suc.IH by (simp add: paginate_take_drop)
qed

lemma page_positions:
  "paginate xs p r = map (\<lambda>i. xs ! i) [p * r ..< min (p * r + r) (length xs)]"
proof (rule nth_equalityI)
  show "length (paginate xs p r) =
        length (map (\<lambda>i. xs ! i) [p * r ..< min (p * r + r) (length xs)])"
    by (simp add: paginate_take_drop)
next
  fix i assume "i < length (paginate xs p r)"
  then have i: "i < r" "p * r + i < length xs"
    by (auto simp: paginate_take_drop)
  then have "p * r + i < min (p * r + r) (length xs)" by simp
  then show "paginate xs p r ! i =
        map (\<lambda>i. xs ! i) [p * r ..< min (p * r + r) (length xs)] ! i"
    using i by (simp add: paginate_take_drop)
qed

lemma sum_page_lengths:
  "sum_list (map (\<lambda>p. length (paginate xs p r)) [0..<n]) = min (length xs) (n * r)"
proof -
  have "sum_list (map (\<lambda>p. length (paginate xs p r)) [0..<n]) =
        length (concat (map (\<lambda>p. paginate xs p r) [0..<n]))"
    by (simp add: length_concat comp_def)
  then show ?thesis by (simp add: concat_pages)
qed

lemma page_ranges_disjoint:
  fixes p q r :: nat
  assumes "p \<noteq> q"
  shows "{p * r ..< p * r + r} \<inter> {q * r ..< q * r + r} = {}"
proof -
  have *: "{a * r ..< a * r + r} \<inter> {b * r ..< b * r + r} = {}" if "a < b" for a b :: nat
  proof -
    from that have "Suc a \<le> b" by simp
    then have "Suc a * r \<le> b * r" by (rule mult_le_mono1)
    then show ?thesis by auto
  qed
  from assms consider "p < q" | "q < p" by arith
  then show ?thesis
  proof cases
    case 1 then show ?thesis by (rule *)
  next
    case 2 then show ?thesis using *[of q p] by blast
  qed
qed

lemma enough_pages:
  fixes len r n :: nat
  assumes "0 < r" and "(len + r - 1) div r \<le> n"
  shows "len \<le> n * r"
proof -
  have "len + r - 1 = (len + r - 1) div r * r + (len + r - 1) mod r"
    by simp
  moreover have "(len + r - 1) mod r < r"
    using assms(1) by simp
  ultimately have "len \<le> (len + r - 1) div r * r"
    by linarith
  also have "\<dots> \<le> n * r"
    using assms(2) by (rule mult_le_mono1)
  finally show ?thesis .
qed

lemma paginate_partition:
  assumes "0 < r" and "(length xs + r - 1) div r \<le> n"
  shows "(\<forall>p. paginate xs p r = map (\<lambda>i. xs ! i) [p * r ..< min (p * r + r) (length xs)])
   \<and> concat (map (\<lambda>p. paginate xs p r) [0..<n]) = xs
   \<and> sum_list (map (\<lambda>p. length (paginate xs p r)) [0..<n]) = length xs"
proof -
  have len: "length xs \<le> n * r"
    using assms by (rule enough_pages)
  have positions: "\<forall>p. paginate xs p r = map (\<lambda>i. xs ! i) [p * r ..< min (p * r + r) (length xs)]"
    by (simp add: page_positions)
  have whole: "concat (map (\<lambda>p. paginate xs p r) [0..<n]) = xs"
    using len by (simp add: concat_pages)
  have total: "sum_list (map (\<lambda>p. length (paginate xs p r)) [0..<n]) = length xs"
    using len by (simp add: sum_page_lengths)
  from positions whole total show ?thesis
    by blast
qed

lemma paginatedAssets_page:
  "paginatedAssets lower (handleChangePage_assets p s) =
     paginate (filteredAssets lower (allAssets s) (as_filters s)) p (as_rowsPerPage s)"
  by (simp add: paginatedAssets_def handleChangePage_assets_def)

lemma paginatedPurchases_page:
  "paginatedPurchases (handleChangePage_purchases p s) =
     paginate (filteredPurchases (allPurchases s) (pu_filters s)) p (pu_rowsPerPage s)"
  by (simp add: paginatedPurchases_def handleChangePage_purchases_def)

lemma paginatedAssignments_page:
  "paginatedAssignments (handleChangePage_assignments p s) =
     paginate (filteredAssignments (allAssignments s) (ag_filters s)) p (ag_rowsPerPage s)"
  by (simp add: paginatedAssignments_def handleChangePage_assignments_def)

lemma same_page_again:
  "handleChangePage_assets p (handleChangePage_assets p s1) = handleChangePage_assets p s1"
  "handleChangePage_purchases p (handleChangePage_purchases p s2) = handleChangePage_purchases p s2"
  "handleChangePage_assignments p (handleChangePage_assignments p s3) =
     handleChangePage_assignments p s3"
  by (simp_all add: handleChangePage_assets_def handleChangePage_purchases_def
      handleChangePage_assignments_def)

text \<open>
  C6. On each page that slices on the client (Assets, Purchases, Assignments), for a
  page size greater than 0 and any number \<open>n\<close> of pages that is at least the filtered
  collection's length divided by the page size, rounded up: the rows shown after
  selecting page \<open>p\<close> are exactly the filtered collection's elements at the positions
  \<open>p * size \<le> i < min (p * size + size) length\<close>; the rows of the pages
  \<open>0, ..., n - 1\<close> concatenated are the filtered collection; their lengths add up to its
  length; and selecting the same page again shows the same rows. The position ranges of
  two different pages are disjoint.
\<close>

theorem paginated_views_partition:
  assumes "0 < as_rowsPerPage s1"
    and "(length (filteredAssets lower (allAssets s1) (as_filters s1)) + as_rowsPerPage s1 - 1)
           div as_rowsPerPage s1 \<le> n1"
    and "0 < pu_rowsPerPage s2"
    and "(length (filteredPurchases (allPurchases s2) (pu_filters s2)) + pu_rowsPerPage s2 - 1)
           div pu_rowsPerPage s2 \<le> n2"
    and "0 < ag_rowsPerPage s3"
    and "(length (filteredAssignments (allAssignments s3) (ag_filters s3)) + ag_rowsPerPage s3 - 1)
           div ag_rowsPerPage s3 \<le> n3"
  shows
    "(\<forall>p. paginatedAssets lower (handleChangePage_assets p s1) =
        map (\<lambda>i. filteredAssets lower (allAssets s1) (as_filters s1) ! i)
          [p * as_rowsPerPage s1 ..<
            min (p * as_rowsPerPage s1 + as_rowsPerPage s1)
              (length (filteredAssets lower (allAssets s1) (as_filters s1)))])
     \<and> concat (map (\<lambda>p. paginatedAssets lower (handleChangePage_assets p s1)) [0..<n1]) =
         filteredAssets lower (allAssets s1) (as_filters s1)
     \<and> sum_list (map (\<lambda>p. length (paginatedAssets lower (handleChangePage_assets p s1)))
         [0..<n1]) = length (filteredAssets lower (allAssets s1) (as_filters s1))
     \<and> (\<forall>p. paginatedAssets lower (handleChangePage_assets p (handleChangePage_assets p s1)) =
         paginatedAssets lower (handleChangePage_assets p s1))
     \<and> (\<forall>p. paginatedPurchases (handleChangePage_purchases p s2) =
        map (\<lambda>i. filteredPurchases (allPurchases s2) (pu_filters s2) ! i)
          [p * pu_rowsPerPage s2 ..<
            min (p * pu_rowsPerPage s2 + pu_rowsPerPage s2)
              (length (filteredPurchases (allPurchases s2) (pu_filters s2)))])
     \<and> concat (map (\<lambda>p. paginatedPurchases (handleChangePage_purchases p s2)) [0..<n2]) =
         filteredPurchases (allPurchases s2) (pu_filters s2)
     \<and> sum_list (map (\<lambda>p. length (paginatedPurchases (handleChangePage_purchases p s2)))
         [0..<n2]) = length (filteredPurchases (allPurchases s2) (pu_filters s2))
     \<and> (\<forall>p. paginatedPurchases (handleChangePage_purchases p (handleChangePage_purchases p s2)) =
         paginatedPurchases (handleChangePage_purchases p s2))
     \<and> (\<forall>p. paginatedAssignments (handleChangePage_assignments p s3) =
        map (\<lambda>i. filteredAssignments (allAssignments s3) (ag_filters s3) ! i)
          [p * ag_rowsPerPage s3 ..<
            min (p * ag_rowsPerPage s3 + ag_rowsPerPage s3)
              (length (filteredAssignments (allAssignments s3) (ag_filters s3)))])
     \<and> concat (map (\<lambda>p. paginatedAssignments (handleChangePage_assignments p s3)) [0..<n3]) =
         filteredAssignments (allAssignments s3) (ag_filters s3)
     \<and> sum_list (map (\<lambda>p. length (paginatedAssignments (handleChangePage_assignments p s3)))
         [0..<n3]) = length (filteredAssignments (allAssignments s3) (ag_filters s3))
     \<and> (\<forall>p. paginatedAssignments
            (handleChangePage_assignments p (handleChangePage_assignments p s3)) =
         paginatedAssignments (handleChangePage_assignments p s3))
     \<and> (\<forall>size p q. p \<noteq> q \<longrightarrow>
          {p * size ..< p * size + size} \<inter> {q * size ..< q * size + size} = ({}::nat set))"
proof -
  note assets = paginate_partition [OF assms(1) assms(2)]
  note purchases = paginate_partition [OF assms(3) assms(4)]
  note assignments = paginate_partition [OF assms(5) assms(6)]
  have disjoint: "\<forall>size p q. p \<noteq> q \<longrightarrow>
      {p * size ..< p * size + size} \<inter> {q * size ..< q * size + size} = ({}::nat set)"
    using page_ranges_disjoint by blast
  show ?thesis
    unfolding paginatedAssets_page paginatedPurchases_page paginatedAssignments_page
      same_page_again
    using assets purchases assignments disjoint by blast
qed

theorem paginated_views_partition_witness:
  "paginatedPurchases (handleChangePage_purchases 0 purchases_second_page) =
     [purchase_at ''p1'' ''B1'' P_pending, purchase_at ''p2'' ''B1'' P_approved,
      purchase_at ''p3'' ''B1'' P_pending, purchase_at ''p4'' ''B1'' P_cancelled,
      purchase_at ''p5'' ''B1'' P_pending]
   \<and> paginatedPurchases (handleChangePage_purchases 1 purchases_second_page) =
     [purchase_at ''p6'' ''B2'' P_pending]
   \<and> paginatedPurchases (handleChangePage_purchases 2 purchases_second_page) = []
   \<and> concat (map (\<lambda>p. paginatedPurchases (handleChangePage_purchases p purchases_second_page))
        [0..<2]) = six_purchases
   \<and> sum_list (map (\<lambda>p. length
        (paginatedPurchases (handleChangePage_purchases p purchases_second_page))) [0..<2]) = 6
   \<and> (\<forall>lower. concat (map (\<lambda>p. paginatedAssets lower (handleChangePage_assets p assets_loaded))
        [0..<1]) = [rifle])
   \<and> concat (map (\<lambda>p. paginatedAssignments (handleChangePage_assignments p assignments_loaded))
        [0..<1]) = three_assignments"
proof -
  have fa: "filteredAssets lower (allAssets assets_loaded) (as_filters assets_loaded) = [rifle]"
    for lower
    by (simp add: assets_loaded_def filteredAssets_no_filters)
  have fp: "filteredPurchases (allPurchases purchases_second_page)
      (pu_filters purchases_second_page) = six_purchases"
    by (simp add: purchases_second_page_def filteredPurchases_no_filters)
  have fg: "filteredAssignments (allAssignments assignments_loaded)
      (ag_filters assignments_loaded) = three_assignments"
    by (simp add: assignments_loaded_def filteredAssignments_no_filters)
  have h1: "0 < as_rowsPerPage assets_loaded"
    by (simp add: assets_loaded_def)
  have h2: "(length (filteredAssets lower (allAssets assets_loaded) (as_filters assets_loaded))
      + as_rowsPerPage assets_loaded - 1) div as_rowsPerPage assets_loaded \<le> 1" for lower
    by (simp add: fa) (simp add: assets_loaded_def)
  have h3: "0 < pu_rowsPerPage purchases_second_page"
    by (simp add: purchases_second_page_def)
  have h4: "(length (filteredPurchases (allPurchases purchases_second_page)
      (pu_filters purchases_second_page)) + pu_rowsPerPage purchases_second_page - 1)
      div pu_rowsPerPage purchases_second_page \<le> 2"
    by (simp add: fp) (simp add: purchases_second_page_def six_purchases_def)
  have h5: "0 < ag_rowsPerPage assignments_loaded"
    by (simp add: assignments_loaded_def)
  have h6: "(length (filteredAssignments (allAssignments assignments_loaded)
      (ag_filters assignments_loaded)) + ag_rowsPerPage assignments_loaded - 1)
      div ag_rowsPerPage assignments_loaded \<le> 1"
    by (simp add: fg) (simp add: assignments_loaded_def three_assignments_def)
  note th = paginated_views_partition [OF h1 h2 h3 h4 h5 h6]
  have whole_p: "concat (map (\<lambda>p. paginatedPurchases
      (handleChangePage_purchases p purchases_second_page)) [0..<2]) = six_purchases"
    using th fp by metis
  have total_p: "sum_list (map (\<lambda>p. length
      (paginatedPurchases (handleChangePage_purchases p purchases_second_page))) [0..<2]) = 6"
  proof -
    from th fp have "sum_list (map (\<lambda>p. length
        (paginatedPurchases (handleChangePage_purchases p purchases_second_page))) [0..<2]) =
        length six_purchases"
      by metis
    then show ?thesis by (simp add: six_purchases_def)
  qed
  have whole_a: "concat (map (\<lambda>p. paginatedAssets lower
      (handleChangePage_assets p assets_loaded)) [0..<1]) = [rifle]" for lower
    using th [of lower] fa [of lower] by metis
  have whole_g: "concat (map (\<lambda>p. paginatedAssignments
      (handleChangePage_assignments p assignments_loaded)) [0..<1]) = three_assignments"
    using th fg by metis
  have pages: "paginatedPurchases (handleChangePage_purchases 0 purchases_second_page) =
     [purchase_at ''p1'' ''B1'' P_pending, purchase_at ''p2'' ''B1'' P_approved,
      purchase_at ''p3'' ''B1'' P_pending, purchase_at ''p4'' ''B1'' P_cancelled,
      purchase_at ''p5'' ''B1'' P_pending]"
    "paginatedPurchases (handleChangePage_purchases 1 purchases_second_page) =
     [purchase_at ''p6'' ''B2'' P_pending]"
    "paginatedPurchases (handleChangePage_purchases 2 purchases_second_page) = []"
    by (simp_all add: paginatedPurchases_page fp paginate_take_drop)
       (simp_all add: purchases_second_page_def six_purchases_def)
  from pages whole_p total_p whole_a whole_g show ?thesis
    by blast
qed

section \<open>Loading\<close>

text \<open>
  C7. When the request of a page's load rejects, on each of the five pages (Assets,
  Purchases, Assignments, Transfers, Expenditures) the page's error string becomes the
  server's message if the rejection carries a non-empty one and the page's fallback
  text otherwise, and the collection held in memory (for the two pages paged by the
  server also the total) is the one held before.
\<close>

theorem load_failure_sets_error_keeps_collection:
  "allAssets (fetchAllAssets (Rejected e) s1) = allAssets s1
   \<and> as_error (fetchAllAssets (Rejected e) s1) =
       (case e of None \<Rightarrow> ''Failed to fetch assets''
        | Some m \<Rightarrow> if m = [] then ''Failed to fetch assets'' else m)
   \<and> allPurchases (fetchAllPurchases (Rejected e) s2) = allPurchases s2
   \<and> pu_error (fetchAllPurchases (Rejected e) s2) =
       (case e of None \<Rightarrow> ''Failed to fetch purchases''
        | Some m \<Rightarrow> if m = [] then ''Failed to fetch purchases'' else m)
   \<and> allAssignments (fetchAllAssignments (Rejected e) s3) = allAssignments s3
   \<and> ag_error (fetchAllAssignments (Rejected e) s3) =
       (case e of None \<Rightarrow> ''Failed to fetch assignments''
        | Some m \<Rightarrow> if m = [] then ''Failed to fetch assignments'' else m)
   \<and> transfers (fetchTransfers (Rejected e) s4) = transfers s4
   \<and> tr_total (fetchTransfers (Rejected e) s4) = tr_total s4
   \<and> tr_error (fetchTransfers (Rejected e) s4) =
       (case e of None \<Rightarrow> ''Failed to fetch transfers''
        | Some m \<Rightarrow> if m = [] then ''Failed to fetch transfers'' else m)
   \<and> expenditures (fetchExpenditures (Rejected e) s5) = expenditures s5
   \<and> ex_total (fetchExpenditures (Rejected e) s5) = ex_total s5
   \<and> ex_error (fetchExpenditures (Rejected e) s5) =
       (case e of None \<Rightarrow> ''Failed to fetch expenditures''
        | Some m \<Rightarrow> if m = [] then ''Failed to fetch expenditures'' else m)"
  by (simp add: fetchAllAssets_def fetchAllPurchases_def fetchAllAssignments_def
      fetchTransfers_def fetchExpenditures_def or_else_def)

theorem load_failure_sets_error_keeps_collection_witness:
  "allAssets (fetchAllAssets (Rejected (Some ''Forbidden'')) assets_loaded) = [rifle]
   \<and> as_error (fetchAllAssets (Rejected (Some ''Forbidden'')) assets_loaded) = ''Forbidden''
   \<and> allPurchases (fetchAllPurchases (Rejected None) purchases_second_page) = six_purchases
   \<and> pu_error (fetchAllPurchases (Rejected None) purchases_second_page) =
       ''Failed to fetch purchases''
   \<and> expenditures (fetchExpenditures (Rejected (Some [])) expenditures_loaded) = [ammo_spent]
   \<and> ex_total (fetchExpenditures (Rejected (Some [])) expenditures_loaded) = 3
   \<and> ex_error (fetchExpenditures (Rejected (Some [])) expenditures_loaded) =
       ''Failed to fetch expenditures''"
  using load_failure_sets_error_keeps_collection
      [where e = "Some ''Forbidden''" and ?s1.0 = assets_loaded]
    load_failure_sets_error_keeps_collection
      [where e = None and ?s2.0 = purchases_second_page]
    load_failure_sets_error_keeps_collection
      [where e = "Some []" and ?s5.0 = expenditures_loaded]
  by (simp add: assets_loaded_def purchases_second_page_def expenditures_loaded_def)

section \<open>Filter changes and the page index\<close>

lemma handleFiltersChange_assets_page: "as_page (handleFiltersChange_assets b s) = 0"
  by (simp add: handleFiltersChange_assets_def)

lemma handleClearFilters_purchases_page: "pu_page (handleClearFilters_purchases s) = 0"
  by (simp add: handleClearFilters_purchases_def)

lemma handleFiltersChange_purchases_page:
  "pu_page (handleFiltersChange_purchases b s) = pu_page s"
  by (simp add: handleFiltersChange_purchases_def)

lemma handleFiltersChange_assignments_page:
  "ag_page (handleFiltersChange_assignments b s) = ag_page s"
  by (simp add: handleFiltersChange_assignments_def)

lemma handleFiltersChange_transfers_page:
  "tr_page (handleFiltersChange_transfers b s) = tr_page s"
  by (simp add: handleFiltersChange_transfers_def)

lemma handleFiltersChange_expenditures_page:
  "ex_page (handleFiltersChange_expenditures b s) = 0"
  by (simp add: handleFiltersChange_expenditures_def)

text \<open>
  C4. The claim is that a change of a filter criterion resets the page index to 0 on
  every page. The Assets and Expenditures pages do so, and so does the Purchases
  page's \<^verbatim>\<open>handleClearFilters\<close>; \<^verbatim>\<open>handleFiltersChange\<close> of the Purchases,
  Assignments and Transfers pages leaves the index as it is. On the Purchases page showing its second
  page of five rows, choosing base B1 keeps the index at 1: five purchases match and
  the table shows none of them.
\<close>

theorem handleFiltersChange_purchases_keeps_page:
  "pu_page (handleFiltersChange_purchases ''B1'' purchases_second_page) = 1
   \<and> pf_base_id (pu_filters (handleFiltersChange_purchases ''B1'' purchases_second_page)) = ''B1''
   \<and> length (filteredPurchases
        (allPurchases (handleFiltersChange_purchases ''B1'' purchases_second_page))
        (pu_filters (handleFiltersChange_purchases ''B1'' purchases_second_page))) = 5
   \<and> paginatedPurchases (handleFiltersChange_purchases ''B1'' purchases_second_page) = []"
  by (simp add: handleFiltersChange_purchases_def purchases_second_page_def
      paginatedPurchases_def paginate_take_drop filteredPurchases_def six_purchases_def
      purchase_passes_def purchase_at_def)

section \<open>Assignments page: what the row offers\<close>

text \<open>
  C10. On the Assignments page, for every principal (any role, or none) and every
  assignment, whatever its status and base: the row shows exactly one Edit button,
  enabled; exactly one Delete button, disabled exactly for a logistics officer; and an
  enabled Expend button exactly when the status is not 'expended'. No other action is
  shown.
\<close>

theorem assignment_row_not_permission_gated:
  "filter (\<lambda>b. btn_action b = Edit) (assignment_row_buttons usr a) =
     [\<lparr>btn_action = Edit, btn_disabled = False\<rparr>]
   \<and> filter (\<lambda>b. btn_action b = Delete) (assignment_row_buttons usr a) =
     [\<lparr>btn_action = Delete, btn_disabled = (role_of usr = Some Logistics_officer)\<rparr>]
   \<and> filter (\<lambda>b. btn_action b = Expend) (assignment_row_buttons usr a) =
     (if a_status a = Expended then [] else [\<lparr>btn_action = Expend, btn_disabled = False\<rparr>])
   \<and> filter (\<lambda>b. btn_action b = Approve \<or> btn_action b = Reject)
        (assignment_row_buttons usr a) = []"
  by (simp add: assignment_row_buttons_def)

theorem assignment_row_not_permission_gated_witness:
  "assignment_row_buttons (Some officer_B1) (assignment_of ''B2'' Returned) =
     [\<lparr>btn_action = Edit, btn_disabled = False\<rparr>,
      \<lparr>btn_action = Delete, btn_disabled = True\<rparr>,
      \<lparr>btn_action = Expend, btn_disabled = False\<rparr>]
   \<and> filter (\<lambda>b. btn_action b = Delete)
        (assignment_row_buttons (Some commander_B1) (assignment_of ''B2'' Expended)) =
     [\<lparr>btn_action = Delete, btn_disabled = False\<rparr>]
   \<and> filter (\<lambda>b. btn_action b = Expend)
        (assignment_row_buttons (Some commander_B1) (assignment_of ''B2'' Expended)) = []"
proof -
  have ev: "assignment_row_buttons (Some officer_B1) (assignment_of ''B2'' Returned) =
     [\<lparr>btn_action = Edit, btn_disabled = False\<rparr>,
      \<lparr>btn_action = Delete, btn_disabled = True\<rparr>,
      \<lparr>btn_action = Expend, btn_disabled = False\<rparr>]"
    by (simp add: assignment_row_buttons_def assignment_of_def officer_B1_def role_of_def)
  show ?thesis
    using assignment_row_not_permission_gated
      [of "Some commander_B1" "assignment_of ''B2'' Expended"] ev
    by (simp add: assignment_of_def commander_B1_def role_of_def)
qed

section \<open>Session store\<close>

lemma session_inv_mount: "session_inv (mount ls hs)"
  by (simp add: session_inv_def mount_def)

lemma session_inv_start: "session_inv (fst (start ls hs))"
  by (simp add: session_inv_def start_def mount_def)

lemma session_inv_logout: "session_inv (logout s)"
  by (simp add: session_inv_def logout_def)

lemma session_inv_login: "session_inv s \<Longrightarrow> session_inv (snd (login lr s))"
  by (cases lr) (simp_all add: session_inv_def login_def)

lemma session_inv_refreshToken: "session_inv s \<Longrightarrow> session_inv (snd (refreshToken rr s))"
  by (cases rr) (simp_all add: session_inv_def refreshToken_def logout_def)

lemma session_inv_checkAuth: "auth_user s = None \<Longrightarrow> session_inv (checkAuth pr s)"
  by (cases pr)
     (auto simp: session_inv_def checkAuth_def checkAuth_settled_def truthy_item_def
       split: option.splits)

text \<open>
  When nothing happens between the token read and the settling of the profile request,
  the run is \<open>checkAuth\<close> on the mounted provider, and the invariant holds after it.
\<close>

lemma uninterrupted_checkAuth:
  "truthy_item (ls ''token'') \<Longrightarrow>
     auth_run [Profile_settles pr] (start ls hs) = Some (checkAuth pr (mount ls hs), False)"
  by (simp add: start_def auth_step_def checkAuth_def mount_def)

text \<open>The three exported operations keep the invariant from any state of a run.\<close>

lemma exported_steps_keep_invariant:
  assumes "session_inv (fst st)" and "auth_step e st = Some st'"
    and "e = Login_settles lr \<or> e = Logout_called \<or> e = Refresh_settles rr"
  shows "session_inv (fst st')"
  using assms
  by (auto simp: auth_step_def session_inv_login session_inv_logout session_inv_refreshToken)

text \<open>
  C9. The invariant "no persisted access token, no principal" holds when the provider
  starts, and \<^verbatim>\<open>login\<close>, \<^verbatim>\<open>logout\<close> and \<^verbatim>\<open>refreshToken\<close> keep it. The failure path
  of \<^verbatim>\<open>checkAuth\<close> does not: its \<^verbatim>\<open>catch\<close> removes the tokens and never calls
  \<^verbatim>\<open>setUser(null)\<close>, as \<^verbatim>\<open>logout\<close> does. The provider starts with a stale token, so
  the profile request is pending; a login completes; the profile request then fails.
  Before that last step the invariant holds; after it both tokens and the header are
  gone and the principal is still the admin.
\<close>

theorem login_during_checkAuth_breaks_invariant:
  "snd (start [''token'' \<mapsto> ''old''] Map.empty)
   \<and> map_option (\<lambda>st. session_inv (fst st))
       (auth_run [Login_settles (Login_ok admin_user ''tok1'' ''ref1'')]
         (start [''token'' \<mapsto> ''old''] Map.empty)) = Some True
   \<and> map_option
       (\<lambda>st. (localStorage (fst st) ''token'', localStorage (fst st) ''refreshToken'',
              axios_headers (fst st) ''Authorization'', auth_user (fst st),
              auth_loading (fst st)))
       (auth_run
         [Login_settles (Login_ok admin_user ''tok1'' ''ref1''), Profile_settles Profile_failed]
         (start [''token'' \<mapsto> ''old''] Map.empty))
     = Some (None, None, None, Some admin_user, False)
   \<and> map_option (\<lambda>st. session_inv (fst st))
       (auth_run
         [Login_settles (Login_ok admin_user ''tok1'' ''ref1''), Profile_settles Profile_failed]
         (start [''token'' \<mapsto> ''old''] Map.empty)) = Some False"
  by (simp add: start_def truthy_item_def auth_step_def login_def checkAuth_settled_def
      mount_def session_inv_def)

section \<open>Shared reference cache\<close>

lemma logout_clears_credentials:
  "localStorage (logout s) ''token'' = None
   \<and> localStorage (logout s) ''refreshToken'' = None
   \<and> axios_headers (logout s) ''Authorization'' = None
   \<and> auth_user (logout s) = None"
  by (simp add: logout_def)

lemma initializeData_clears:
  "bases (cache (initializeData None False p)) = []
   \<and> assetTypes (cache (initializeData None False p)) = []
   \<and> dc_assets (cache (initializeData None False p)) = []"
  by (simp add: initializeData_def)

text \<open>The clearing run of the effect leaves the requests in flight as they are.\<close>

lemma initializeData_keeps_in_flight:
  "in_flight (initializeData None authLoading p) = in_flight p"
  by (simp add: initializeData_def)

lemma nothing_in_flight_nothing_settles: "in_flight p = [] \<Longrightarrow> settle k resp p = None"
  by (simp add: settle_def)

text \<open>
  C8. \<^verbatim>\<open>logout\<close> is a total function of the session alone (no request outcome, no
  error); after it both persisted tokens and the default Authorization header are
  absent and the principal is \<open>None\<close>, and the effect's next run empties the three
  cached collections. They do not stay empty: the admin logs out while the three
  reference requests are in flight; the clearing run leaves them in flight; when they
  settle their setters fill the three collections again, with no principal.
\<close>

theorem stale_fetch_refills_cache_after_logout:
  "localStorage (logout admin_session) ''token'' = None
   \<and> localStorage (logout admin_session) ''refreshToken'' = None
   \<and> axios_headers (logout admin_session) ''Authorization'' = None
   \<and> auth_user (logout admin_session) = None
   \<and> bases (cache provider_after_logout) = []
   \<and> assetTypes (cache provider_after_logout) = []
   \<and> dc_assets (cache provider_after_logout) = []
   \<and> in_flight provider_after_logout = [[Get_bases, Get_asset_types, Get_assets]]
   \<and> map_option (\<lambda>p. bases (cache p))
       (settle 0 (Bases_settled (Fetched [fort_bragg])) provider_after_logout)
     = Some [fort_bragg]
   \<and> map_option
       (\<lambda>p. (bases (cache p), assetTypes (cache p), dc_assets (cache p), in_flight p))
       (Option.bind
         (Option.bind
           (settle 0 (Assets_settled (Fetched [rifle])) provider_after_logout)
           (settle 0 (Bases_settled (Fetched [fort_bragg]))))
         (settle 0 (Asset_types_settled (Fetched [weapon_type]))))
     = Some ([fort_bragg], [weapon_type], [rifle], [])"
  by (simp add: logout_def admin_session_def provider_after_logout_def initializeData_def
      empty_provider_def settle_def request_of_def apply_response_def fetchBases_def
      fetchAssetTypes_def fetchAssets_def)

end
